theory Spec2Isabelle
  imports Complex_Main "HOL-Library.Word" "HOL-Library.Multiset"
begin

unbundle bit_operations_syntax

section \<open>The commitment ledger: \<open>RandomProof.sol\<close>\<close>

text \<open>
  The contract \<open>RandomProof\<close> of \<open>backend_backup/contracts/RandomProof.sol\<close>. Solidity's
  \<open>bytes32\<close> and \<open>uint256\<close> are 256-bit words, an \<open>address\<close> is a 160-bit word. A
  \<open>mapping\<close> is a total function whose unwritten slots hold the zero value. A call that
  reverts leaves the storage as it was, so a function returns either an error or the new
  storage.
\<close>

type_synonym uint256 = "256 word"
type_synonym bytes32 = "256 word"
type_synonym address = "160 word"
type_synonym uint32 = "32 word"
type_synonym uint16 = "16 word"

record RandomnessRequest =
  entityHash :: bytes32
  salt :: bytes32
  randomness :: uint256
  timestamp :: uint256
  fulfilled :: bool
  requester :: address

datatype event =
    RandomnessRequested uint256 bytes32 bytes32 address
  | RandomnessFulfilled uint256 bytes32 uint256
  | EntityProcessed bytes32 bytes32 uint256 uint256

datatype sol_error =
    EntityAlreadyProcessed bytes32
  | RequestNotFound uint256
  | IndexOutOfBounds
  | CoordinatorReverted
  | OwnableUnauthorizedAccount address

record RandomProof =
  s_subscriptionId :: uint256
  s_keyHash :: bytes32
  s_callbackGasLimit :: uint32
  s_requestConfirmations :: uint16
  s_numWords :: uint32
  s_requests :: "uint256 \<Rightarrow> RandomnessRequest"
  entityHashToRequestId :: "bytes32 \<Rightarrow> uint256"
  processedEntityHashes :: "bytes32 \<Rightarrow> bool"
  requestIds :: "uint256 list"
  lastRequestId :: uint256
  owner :: address
  emitted :: "event list"

text \<open>The zero value of the struct, held by every slot of \<open>s_requests\<close> never written.\<close>

definition zero_request :: RandomnessRequest where
  "zero_request = \<lparr>entityHash = 0, salt = 0, randomness = 0, timestamp = 0,
     fulfilled = False, requester = 0\<rparr>"

text \<open>The storage after the constructor has run, deployed by \<open>msg_sender\<close>.\<close>

definition constructor :: "address \<Rightarrow> uint256 \<Rightarrow> bytes32 \<Rightarrow> RandomProof" where
  "constructor msg_sender subscriptionId keyHash =
     \<lparr>s_subscriptionId = subscriptionId, s_keyHash = keyHash,
      s_callbackGasLimit = 100000, s_requestConfirmations = 3, s_numWords = 1,
      s_requests = (\<lambda>_. zero_request), entityHashToRequestId = (\<lambda>_. 0),
      processedEntityHashes = (\<lambda>_. False), requestIds = [], lastRequestId = 0,
      owner = msg_sender, emitted = []\<rparr>"

text \<open>
  \<open>requestRandomness\<close>. The call \<open>s_vrfCoordinator.requestRandomWords(...)\<close> goes to the
  Chainlink coordinator, which is not part of the repository: its outcome is the argument
  \<open>vrf\<close>, \<open>Some requestId\<close> when it returns and \<open>None\<close> when it reverts (which reverts
  the whole call). The coordinator is taken not to call back into the contract before it
  returns.
\<close>

definition requestRandomness ::
  "address \<Rightarrow> uint256 \<Rightarrow> uint256 option \<Rightarrow> bytes32 \<Rightarrow> bytes32 \<Rightarrow> RandomProof
     \<Rightarrow> sol_error + (uint256 \<times> RandomProof)" where
  "requestRandomness msg_sender block_timestamp vrf entityHash' salt' c =
     (if processedEntityHashes c entityHash' then Inl (EntityAlreadyProcessed entityHash')
      else case vrf of
        None \<Rightarrow> Inl CoordinatorReverted
      | Some requestId \<Rightarrow>
          Inr (requestId,
            c\<lparr>s_requests := (s_requests c)(requestId :=
                  \<lparr>entityHash = entityHash', salt = salt', randomness = 0,
                   timestamp = block_timestamp, fulfilled = False,
                   requester = msg_sender\<rparr>),
              entityHashToRequestId := (entityHashToRequestId c)(entityHash' := requestId),
              processedEntityHashes := (processedEntityHashes c)(entityHash' := True),
              requestIds := requestIds c @ [requestId],
              lastRequestId := requestId,
              emitted := emitted c @
                [RandomnessRequested requestId entityHash' salt' msg_sender]\<rparr>))"

text \<open>
  \<open>fulfillRandomWords\<close>, the callback the coordinator reaches through
  \<open>rawFulfillRandomWords\<close>. \<open>randomWords[0]\<close> on an empty array is a panic.
\<close>

definition fulfillRandomWords ::
  "uint256 \<Rightarrow> uint256 \<Rightarrow> uint256 list \<Rightarrow> RandomProof \<Rightarrow> sol_error + RandomProof" where
  "fulfillRandomWords block_timestamp requestId randomWords c =
     (let request = s_requests c requestId in
      if timestamp request = 0 then Inl (RequestNotFound requestId)
      else case randomWords of
        [] \<Rightarrow> Inl IndexOutOfBounds
      | w # _ \<Rightarrow>
          Inr (c\<lparr>s_requests := (s_requests c)(requestId :=
                    request\<lparr>randomness := w, fulfilled := True\<rparr>),
                emitted := emitted c @
                  [RandomnessFulfilled requestId (entityHash request) w,
                   EntityProcessed (entityHash request) (salt request) w
                     block_timestamp]\<rparr>))"

definition getRequest :: "uint256 \<Rightarrow> RandomProof \<Rightarrow> RandomnessRequest" where
  "getRequest requestId c = s_requests c requestId"

definition getRequestByEntityHash :: "bytes32 \<Rightarrow> RandomProof \<Rightarrow> RandomnessRequest" where
  "getRequestByEntityHash h c = s_requests c (entityHashToRequestId c h)"

definition isEntityProcessed :: "bytes32 \<Rightarrow> RandomProof \<Rightarrow> bool" where
  "isEntityProcessed h c = processedEntityHashes c h"

text \<open>The four setters, guarded by \<open>onlyOwner\<close>.\<close>

definition updateSubscriptionId :: "address \<Rightarrow> uint256 \<Rightarrow> RandomProof \<Rightarrow> sol_error + RandomProof" where
  "updateSubscriptionId msg_sender v c =
     (if msg_sender \<noteq> owner c then Inl (OwnableUnauthorizedAccount msg_sender)
      else Inr (c\<lparr>s_subscriptionId := v\<rparr>))"

definition updateKeyHash :: "address \<Rightarrow> bytes32 \<Rightarrow> RandomProof \<Rightarrow> sol_error + RandomProof" where
  "updateKeyHash msg_sender v c =
     (if msg_sender \<noteq> owner c then Inl (OwnableUnauthorizedAccount msg_sender)
      else Inr (c\<lparr>s_keyHash := v\<rparr>))"

definition updateCallbackGasLimit :: "address \<Rightarrow> uint32 \<Rightarrow> RandomProof \<Rightarrow> sol_error + RandomProof" where
  "updateCallbackGasLimit msg_sender v c =
     (if msg_sender \<noteq> owner c then Inl (OwnableUnauthorizedAccount msg_sender)
      else Inr (c\<lparr>s_callbackGasLimit := v\<rparr>))"

definition updateRequestConfirmations :: "address \<Rightarrow> uint16 \<Rightarrow> RandomProof \<Rightarrow> sol_error + RandomProof" where
  "updateRequestConfirmations msg_sender v c =
     (if msg_sender \<noteq> owner c then Inl (OwnableUnauthorizedAccount msg_sender)
      else Inr (c\<lparr>s_requestConfirmations := v\<rparr>))"

text \<open>
  A transaction is one call of a state-changing function with its arguments and its block
  context. \<open>apply_tx\<close> gives the storage after it: the new storage when the call
  returns, the old one when it reverts.
\<close>

datatype tx =
    RequestRandomness address uint256 "uint256 option" bytes32 bytes32
  | FulfillRandomWords uint256 uint256 "uint256 list"
  | UpdateSubscriptionId address uint256
  | UpdateKeyHash address bytes32
  | UpdateCallbackGasLimit address uint32
  | UpdateRequestConfirmations address uint16

definition keep :: "RandomProof \<Rightarrow> sol_error + RandomProof \<Rightarrow> RandomProof" where
  "keep c r = (case r of Inl _ \<Rightarrow> c | Inr c' \<Rightarrow> c')"

fun apply_tx :: "tx \<Rightarrow> RandomProof \<Rightarrow> RandomProof" where
  "apply_tx (RequestRandomness s t vrf h sl) c =
     (case requestRandomness s t vrf h sl c of Inl _ \<Rightarrow> c | Inr (_, c') \<Rightarrow> c')"
| "apply_tx (FulfillRandomWords t rid ws) c = keep c (fulfillRandomWords t rid ws c)"
| "apply_tx (UpdateSubscriptionId s v) c = keep c (updateSubscriptionId s v c)"
| "apply_tx (UpdateKeyHash s v) c = keep c (updateKeyHash s v c)"
| "apply_tx (UpdateCallbackGasLimit s v) c = keep c (updateCallbackGasLimit s v c)"
| "apply_tx (UpdateRequestConfirmations s v) c = keep c (updateRequestConfirmations s v c)"

fun apply_txs :: "tx list \<Rightarrow> RandomProof \<Rightarrow> RandomProof" where
  "apply_txs [] c = c"
| "apply_txs (t # ts) c = apply_txs ts (apply_tx t c)"

text \<open>The number of submissions the ledger has accepted for an entity hash.\<close>

fun is_request_for :: "bytes32 \<Rightarrow> event \<Rightarrow> bool" where
  "is_request_for h (RandomnessRequested _ h' _ _) = (h' = h)"
| "is_request_for h _ = False"

definition accepted :: "bytes32 \<Rightarrow> RandomProof \<Rightarrow> nat" where
  "accepted h c = length (filter (is_request_for h) (emitted c))"

section \<open>JavaScript strings and numbers\<close>

text \<open>
  A JavaScript string is a sequence of UTF-16 code units; \<open>charCodeAt\<close>, \<open>length\<close>,
  \<open>slice\<close> and \<open>trim\<close> all work on code units. \<open>js\<close> writes an ASCII literal.
\<close>

type_synonym js_string = "16 word list"

definition js :: "string \<Rightarrow> js_string" where
  "js s = map (\<lambda>c. of_nat (of_char c)) s"

text \<open>
  \<open>String.prototype.trim\<close> removes white space and line terminators from both ends:
  TAB, LF, VT, FF, CR, SP, NBSP, U+1680, U+2000 to U+200A, LS, PS, U+202F, U+205F, U+3000
  and the byte order mark.
\<close>

definition isWhiteSpace :: "16 word \<Rightarrow> bool" where
  "isWhiteSpace c =
     (c \<in> {0x0009, 0x000A, 0x000B, 0x000C, 0x000D, 0x0020, 0x00A0, 0x1680,
            0x2028, 0x2029, 0x202F, 0x205F, 0x3000, 0xFEFF}
      \<or> (0x2000 \<le> c \<and> c \<le> 0x200A))"

definition trim :: "js_string \<Rightarrow> js_string" where
  "trim s = rev (dropWhile isWhiteSpace (rev (dropWhile isWhiteSpace s)))"

text \<open>\<open>Number.prototype.toString(16)\<close> on an integer: lower-case digits, a minus sign first.\<close>

definition hexDigit :: "int \<Rightarrow> 16 word" where
  "hexDigit d = (if d < 10 then word_of_int (48 + d) else word_of_int (87 + d))"

function toString16 :: "int \<Rightarrow> js_string" where
  "toString16 n =
     (if n < 0 then 0x2D # toString16 (- n)
      else if n < 16 then [hexDigit n]
      else toString16 (n div 16) @ [hexDigit (n mod 16)])"
  by pat_completeness auto
termination
  by (relation "measure (\<lambda>n. if n < 0 then nat (- n) + 1 else nat n)") auto

declare toString16.simps [simp del]

definition isLowerHexDigit :: "16 word \<Rightarrow> bool" where
  "isLowerHexDigit c = ((0x30 \<le> c \<and> c \<le> 0x39) \<or> (0x61 \<le> c \<and> c \<le> 0x66))"

definition padStart :: "nat \<Rightarrow> 16 word \<Rightarrow> js_string \<Rightarrow> js_string" where
  "padStart targetLength c s = replicate (targetLength - length s) c @ s"

text \<open>
  \<open>Array.prototype.slice(start, end)\<close> and \<open>String.prototype.slice\<close> on integer
  arguments: a negative index counts from the end, and both ends are clamped to the length.
\<close>

definition slice :: "int \<Rightarrow> int \<Rightarrow> 'a list \<Rightarrow> 'a list" where
  "slice start end xs =
     (let len = int (length xs);
          k = (if start < 0 then max (len + start) 0 else min start len);
          final = (if end < 0 then max (len + end) 0 else min end len)
      in take (nat (final - k)) (drop (nat k) xs))"

text \<open>
  \<open>ToInt32\<close>, which the bitwise operators apply to their operands: the value modulo
  \<open>2^32\<close>, read as two's complement.
\<close>

definition to_int32 :: "int \<Rightarrow> int" where
  "to_int32 v = sint (word_of_int v :: 32 word)"

text \<open>
  A JavaScript number is a double. Sums and products of integers are exact up to \<open>2^53\<close>;
  beyond, the result is rounded to 53 significant bits, ties to even. \<open>round_double\<close> is
  that rounding on integers (all the values met here are far below the overflow threshold).
\<close>

function bit_length :: "int \<Rightarrow> nat" where
  "bit_length m = (if m \<le> 0 then 0 else Suc (bit_length (m div 2)))"
  by pat_completeness auto
termination
  by (relation "measure nat") auto

declare bit_length.simps [simp del]

definition round_double :: "int \<Rightarrow> int" where
  "round_double n =
     (let m = \<bar>n\<bar>; e = int (bit_length m) - 53 in
      if e \<le> 0 then n
      else
        (let q = m div 2 ^ nat e;
             r = m mod 2 ^ nat e;
             half = 2 ^ (nat e - 1);
             q' = (if half < r \<or> (r = half \<and> odd q) then q + 1 else q)
         in sgn n * (q' * 2 ^ nat e)))"

section \<open>Hashing: \<open>utils/hashing.ts\<close> and \<open>utils/keccak.ts\<close>\<close>

text \<open>
  \<open>sha256Hash\<close> encodes its input with \<open>TextEncoder\<close>, digests the bytes with
  \<open>crypto.subtle.digest('SHA-256', data)\<close> and renders every byte as two hex digits.
  Encoder and digest belong to the platform and are parameters.
\<close>

record WebPlatform =
  encode :: "js_string \<Rightarrow> 8 word list"
  digest_SHA256 :: "8 word list \<Rightarrow> 8 word list"

definition sha256Hash :: "WebPlatform \<Rightarrow> js_string \<Rightarrow> js_string" where
  "sha256Hash W input =
     (let data = encode W input;
          hashBuffer = digest_SHA256 W data;
          hashArray = hashBuffer;
          hashHex = concat (map (\<lambda>b. padStart 2 0x30 (toString16 (uint b))) hashArray)
      in hashHex)"

text \<open>
  The entity hash of \<open>handleSubmit\<close>: \<open>sha256Hash(processedData + store.salt)\<close>, the salt
  appended with no separator.
\<close>

definition computeEntityHash :: "WebPlatform \<Rightarrow> js_string \<Rightarrow> js_string \<Rightarrow> js_string" where
  "computeEntityHash W processedData salt' = sha256Hash W (processedData @ salt')"

text \<open>
  The string hash written out in \<open>simpleFallbackHash\<close> and in the drivers:
  \<open>hash = ((hash << 5) - hash) + char; hash = hash & hash\<close> for every code unit. The
  shift and the \<open>&\<close> go through \<open>ToInt32\<close>; the subtraction and the addition between
  them are exact.
\<close>

fun hash_loop :: "int \<Rightarrow> js_string \<Rightarrow> int" where
  "hash_loop hash [] = hash"
| "hash_loop hash (char # rest) =
     hash_loop (to_int32 ((to_int32 (hash * 2 ^ 5) - hash) + uint char)) rest"

text \<open>
  The second pass: \<open>hash2 ^= char\<close> goes through \<open>ToInt32\<close>, \<open>hash2 *= 0x01000193\<close>
  is a product of doubles, which can pass \<open>2^53\<close> and is rounded.
\<close>

fun hash2_loop :: "int \<Rightarrow> js_string \<Rightarrow> int" where
  "hash2_loop hash2 [] = hash2"
| "hash2_loop hash2 (char # rest) =
     hash2_loop
       (round_double (sint ((word_of_int hash2 :: 32 word) XOR ucast char) * 0x01000193))
       rest"

definition simpleFallbackHash :: "js_string \<Rightarrow> js_string" where
  "simpleFallbackHash input =
     (let hash = hash_loop 0 input;
          hash2 = hash2_loop 0x811c9dc5 input;
          combined = toString16 (round_double (\<bar>hash\<bar> + \<bar>hash2\<bar>))
      in js ''0x'' @ slice 0 64 (padStart 64 0x30 combined))"

text \<open>
  \<open>stringToBytes32\<close>. The keccak package is a parameter: \<open>keccak256 input\<close> is the
  digest \<open>keccak('keccak256').update(input).digest()\<close>, or \<open>None\<close> when that expression
  throws, which the \<open>catch\<close> turns into the fallback hash. \<open>bufferToHex\<close> is the
  buffer's \<open>toString('hex')\<close>.
\<close>

definition bufferToHex :: "8 word list \<Rightarrow> js_string" where
  "bufferToHex bs = concat (map (\<lambda>b. padStart 2 0x30 (toString16 (uint b))) bs)"

definition stringToBytes32 :: "(js_string \<Rightarrow> 8 word list option) \<Rightarrow> js_string \<Rightarrow> js_string" where
  "stringToBytes32 keccak256 input =
     (case keccak256 input of
        Some hash \<Rightarrow> js ''0x'' @ bufferToHex hash
      | None \<Rightarrow> simpleFallbackHash input)"

text \<open>\<open>saltToBytes32\<close> takes a string, \<open>undefined\<close> or \<open>null\<close>.\<close>

datatype js_salt = Undefined | Null | Str js_string

definition zeroBytes32 :: js_string where
  "zeroBytes32 = js ''0x0000000000000000000000000000000000000000000000000000000000000000''"

fun saltToBytes32 :: "(js_string \<Rightarrow> 8 word list option) \<Rightarrow> js_salt \<Rightarrow> js_string" where
  "saltToBytes32 keccak256 Undefined = zeroBytes32"
| "saltToBytes32 keccak256 Null = zeroBytes32"
| "saltToBytes32 keccak256 (Str s) =
     (if s = [] \<or> trim s = [] then zeroBytes32
      else stringToBytes32 keccak256 (trim s))"

section \<open>The shuffle: \<open>utils/shuffle.ts\<close>\<close>

text \<open>
  \<open>shuffleArray\<close> copies its argument and swaps in the copy, so arrays are modelled by
  reference: the heap is the list of all arrays alive, an array reference is an index into
  it, and \<open>[...array]\<close> allocates a new array at the end of the heap.

  The generator comes from the \<open>mersenne-twister\<close> package and is a parameter:
  \<open>mt_init seed\<close> is the state of \<open>new MersenneTwister(seed)\<close>, and \<open>mt_random\<close> is
  \<open>mt.random()\<close>, which returns a number of the interval \<open>[0, 1)\<close> and advances the
  state. \<open>Math.floor(mt.random() * (i + 1))\<close> is taken with the exact product; the
  properties below need only that the index lies between \<open>0\<close> and \<open>i\<close>, which the
  rounded product of a number below one and \<open>i + 1\<close> satisfies as well.
\<close>

type_synonym heap = "js_string list list"

record 'g MersenneTwister =
  mt_init :: "int \<Rightarrow> 'g"
  mt_random :: "'g \<Rightarrow> real \<times> 'g"

definition unit_interval :: "'g MersenneTwister \<Rightarrow> bool" where
  "unit_interval P = (\<forall>g. 0 \<le> fst (mt_random P g) \<and> fst (mt_random P g) < 1)"

text \<open>
  The loop \<open>for (let i = shuffled.length - 1; i > 0; i--)\<close>. The swap
  \<open>[shuffled[i], shuffled[j]] = [shuffled[j], shuffled[i]]\<close> reads both elements and
  then writes position \<open>i\<close>, then position \<open>j\<close>.
\<close>

function shuffle_loop ::
  "'g MersenneTwister \<Rightarrow> nat \<Rightarrow> int \<Rightarrow> 'g \<times> heap \<Rightarrow> 'g \<times> heap" where
  "shuffle_loop P shuffled i (mt, h) =
     (if 0 < i then
        (let (r, mt') = mt_random P mt;
             j = \<lfloor>r * (of_int i + 1)\<rfloor>;
             a = h ! shuffled;
             a' = a[nat i := a ! nat j, nat j := a ! nat i]
         in shuffle_loop P shuffled (i - 1) (mt', h[shuffled := a']))
      else (mt, h))"
  by pat_completeness auto
termination
  by (relation "measure (\<lambda>(P, shuffled, i, s). nat i)") auto

declare shuffle_loop.simps [simp del]

text \<open>\<open>shuffleArray\<close> returns the reference of the new array together with the heap.\<close>

definition shuffleArray :: "'g MersenneTwister \<Rightarrow> heap \<Rightarrow> nat \<Rightarrow> int \<Rightarrow> nat \<times> heap" where
  "shuffleArray P h array seed =
     (let mt = mt_init P seed;
          shuffled = length h;
          h1 = h @ [h ! array];
          (mt', h2) = shuffle_loop P shuffled (int (length (h1 ! shuffled)) - 1) (mt, h1)
      in (shuffled, h2))"

section \<open>Winner selection: \<open>components/WinnerSelection.vue\<close>\<close>

text \<open>
  The part of the component's state that \<open>autoPickWinners\<close> reads and writes:
  the shuffled entries, the store's number of winners (an integer; the input field and the
  URL parameter are numbers) and its winners, and the two flags.
\<close>

record WinnerSelection =
  shuffledEntries :: "js_string list"
  numberOfWinners :: int
  winners :: "js_string list"
  winnersSelected :: bool
  winnersRevealed :: bool

definition autoPickWinners :: "WinnerSelection \<Rightarrow> WinnerSelection" where
  "autoPickWinners v =
     v\<lparr>winners := slice 0 (numberOfWinners v) (shuffledEntries v),
       winnersSelected := True,
       winnersRevealed := False\<rparr>"

section \<open>The test driver: \<open>utils/mathRandomDriver.ts\<close>\<close>

text \<open>
  The two maps of \<open>MathRandomDriver\<close>. A number that the driver stores is an integer
  below \<open>2^53\<close>, so it is exact. \<open>persistData\<close> only copies the maps to
  \<open>localStorage\<close> and swallows every failure; it is left out, and a driver starts with
  both maps empty (nothing persisted).
\<close>

record PendingRequest =
  transactionId :: js_string
  saltBytes32 :: js_string
  requestedAt :: int

record MathRandomDriver =
  pendingRequests :: "js_string \<rightharpoonup> PendingRequest"
  completedResults :: "js_string \<rightharpoonup> int"

definition new_MathRandomDriver :: MathRandomDriver where
  "new_MathRandomDriver = \<lparr>pendingRequests = Map.empty, completedResults = Map.empty\<rparr>"

text \<open>
  \<open>requestRandomness\<close>. \<open>now\<close> is \<open>Date.now()\<close> and \<open>randomPart\<close> is
  \<open>Math.random().toString(36).substring(2, 9)\<close>, which only goes into the id.
\<close>

definition MathRandomDriver_requestRandomness ::
  "int \<Rightarrow> js_string \<Rightarrow> js_string \<Rightarrow> js_string \<Rightarrow> MathRandomDriver
     \<Rightarrow> js_string \<times> MathRandomDriver" where
  "MathRandomDriver_requestRandomness now randomPart h salt32 d =
     (if completedResults d h \<noteq> None then
        (case pendingRequests d h of
           Some existingRequest \<Rightarrow> (transactionId existingRequest, d)
         | None \<Rightarrow> (js ''0x'' @ slice 0 16 h @ js ''_completed'', d))
      else
        (let ts = now;
             tid = js ''0x'' @ toString16 ts @ randomPart
         in (tid,
             d\<lparr>pendingRequests := (pendingRequests d)(h \<mapsto>
                 \<lparr>transactionId = tid, saltBytes32 = salt32, requestedAt = ts\<rparr>)\<rparr>)))"

text \<open>
  \<open>fetchRandomness\<close>. \<open>now\<close> is \<open>Date.now()\<close>. \<open>randomMillion\<close> is the value of the
  expression \<open>Math.floor(Math.random() * 1000000)\<close>, an integer from \<open>0\<close> to \<open>999999\<close>:
  the draw and the rounded product of doubles are the environment's, and at most one of
  the two occurrences of the expression is evaluated in a call.
\<close>

definition MathRandomDriver_fetchRandomness ::
  "int \<Rightarrow> int \<Rightarrow> js_string \<Rightarrow> MathRandomDriver \<Rightarrow> int \<times> MathRandomDriver" where
  "MathRandomDriver_fetchRandomness now randomMillion h d =
     (case completedResults d h of
        Some existingResult \<Rightarrow> (existingResult, d)
      | None \<Rightarrow>
          (case pendingRequests d h of
             None \<Rightarrow>
               (let hash = hash_loop 0 h;
                    randomValue = \<bar>hash\<bar> + randomMillion
                in (randomValue,
                    d\<lparr>completedResults := (completedResults d)(h \<mapsto> randomValue)\<rparr>))
           | Some request \<Rightarrow>
               (let elapsedTime = now - requestedAt request in
                if elapsedTime < 2000 then (0, d)
                else
                  (let hash = hash_loop 0 h;
                       randomValue = \<bar>hash\<bar> * 997 + randomMillion
                   in (randomValue,
                       d\<lparr>pendingRequests := (pendingRequests d)(h := None),
                         completedResults := (completedResults d)(h \<mapsto> randomValue)\<rparr>)))))"

section \<open>The HTTP driver: \<open>API3QRNGDriver\<close>\<close>

text \<open>
  The driver keeps the requests it has made and a map from entity hash to request id. The
  remote service is a parameter: \<open>status_api requestId\<close> is what
  \<open>GET /v1/status/requestId\<close> answers, \<open>None\<close> when the call throws (network error,
  timeout, HTTP error).
\<close>

datatype qrng_status = Pending | Completed | Failed | OtherStatus

record QRNGRequest =
  q_requestId :: js_string
  q_entityHash :: js_string
  q_salt :: js_string
  q_timestamp :: int
  q_status :: qrng_status

record QRNGResponse =
  r_status :: qrng_status
  r_randomNumber :: "js_string option"

record API3QRNGDriver =
  api3_pendingRequests :: "js_string \<rightharpoonup> QRNGRequest"
  api3_entityHashToRequestId :: "js_string \<rightharpoonup> js_string"

definition new_API3QRNGDriver :: API3QRNGDriver where
  "new_API3QRNGDriver =
     \<lparr>api3_pendingRequests = Map.empty, api3_entityHashToRequestId = Map.empty\<rparr>"

text \<open>
  \<open>parseInt(hex, 16)\<close>: leading white space is skipped, then a sign, then a prefix
  \<open>0x\<close> or \<open>0X\<close>; the longest run of hex digits that follows is the value, and there is
  no value (\<open>NaN\<close>) when the run is empty.
\<close>

definition hexValue :: "16 word \<Rightarrow> int option" where
  "hexValue c =
     (if 0x30 \<le> c \<and> c \<le> 0x39 then Some (uint c - 0x30)
      else if 0x61 \<le> c \<and> c \<le> 0x66 then Some (uint c - 0x61 + 10)
      else if 0x41 \<le> c \<and> c \<le> 0x46 then Some (uint c - 0x41 + 10)
      else None)"

definition isHexDigit :: "16 word \<Rightarrow> bool" where
  "isHexDigit c = (hexValue c \<noteq> None)"

definition stripPrefix0x :: "js_string \<Rightarrow> js_string" where
  "stripPrefix0x s =
     (case s of
        a # b # rest \<Rightarrow> if a = 0x30 \<and> (b = 0x78 \<or> b = 0x58) then rest else s
      | _ \<Rightarrow> s)"

definition parseInt16 :: "js_string \<Rightarrow> int option" where
  "parseInt16 s =
     (let t = dropWhile isWhiteSpace s;
          sign = (case t of c # _ \<Rightarrow> if c = 0x2D then - 1 else 1 | [] \<Rightarrow> (1::int));
          t1 = (case t of c # rest \<Rightarrow> if c = 0x2B \<or> c = 0x2D then rest else t | [] \<Rightarrow> t);
          z = takeWhile isHexDigit (stripPrefix0x t1)
      in if z = [] then None
         else Some (sign * foldl (\<lambda>acc c. acc * 16 + the (hexValue c)) 0 z))"

text \<open>
  \<open>parseRandomNumber\<close>: \<open>randomHex.replace(/^0x/, '')\<close>, then \<open>parseInt\<close>; it throws
  (\<open>None\<close>) unless the value is a safe integer, at most \<open>2^53 - 1\<close>, and positive. A
  parsed integer beyond \<open>2^53 - 1\<close> becomes a double that is not a safe integer.
\<close>

definition parseRandomNumber :: "js_string \<Rightarrow> int option" where
  "parseRandomNumber randomHex =
     (let hex = (case randomHex of
                   a # b # rest \<Rightarrow> if a = 0x30 \<and> b = 0x78 then rest else randomHex
                 | _ \<Rightarrow> randomHex)
      in case parseInt16 hex of
           None \<Rightarrow> None
         | Some v \<Rightarrow> if \<bar>v\<bar> \<le> 2 ^ 53 - 1 \<and> 0 < v then Some v else None)"

text \<open>
  \<open>makeQRNGRequest\<close> after the service has answered \<open>POST /v1/request\<close> with
  \<open>requestId\<close>: the request is stored, and the entity hash is mapped to its id.
\<close>

definition makeQRNGRequest ::
  "int \<Rightarrow> js_string \<Rightarrow> js_string \<Rightarrow> js_string \<Rightarrow> API3QRNGDriver \<Rightarrow> API3QRNGDriver" where
  "makeQRNGRequest now requestId h salt' d =
     d\<lparr>api3_pendingRequests := (api3_pendingRequests d)(requestId \<mapsto>
          \<lparr>q_requestId = requestId, q_entityHash = h, q_salt = salt', q_timestamp = now,
             q_status = Pending\<rparr>),
       api3_entityHashToRequestId := (api3_entityHashToRequestId d)(h \<mapsto> requestId)\<rparr>"

text \<open>
  \<open>fetchRandomness\<close>. Every exception inside is caught and answered with \<open>0\<close>. On a
  completed request the driver first deletes the request and the entry of the entity hash
  (``clean up completed request''), then parses the number.
\<close>

definition API3QRNGDriver_fetchRandomness ::
  "(js_string \<Rightarrow> QRNGResponse option) \<Rightarrow> js_string \<Rightarrow> API3QRNGDriver
     \<Rightarrow> int \<times> API3QRNGDriver" where
  "API3QRNGDriver_fetchRandomness status_api h d =
     (case api3_entityHashToRequestId d h of
        None \<Rightarrow> (0, d)
      | Some requestId \<Rightarrow>
          if requestId = [] then (0, d)
          else
            (case status_api requestId of
               None \<Rightarrow> (0, d)
             | Some response \<Rightarrow>
                 (case r_status response of
                    Completed \<Rightarrow>
                      (case r_randomNumber response of
                         None \<Rightarrow> (0, d)
                       | Some randomHex \<Rightarrow>
                           if randomHex = [] then (0, d)
                           else
                             (let d' = d\<lparr>api3_pendingRequests :=
                                           (api3_pendingRequests d)(requestId := None),
                                         api3_entityHashToRequestId :=
                                           (api3_entityHashToRequestId d)(h := None)\<rparr>
                              in case parseRandomNumber randomHex of
                                   None \<Rightarrow> (0, d')
                                 | Some randomNumber \<Rightarrow> (randomNumber, d')))
                  | Pending \<Rightarrow> (0, d)
                  | Failed \<Rightarrow>
                      (0, d\<lparr>api3_pendingRequests :=
                               (api3_pendingRequests d)(requestId := None),
                             api3_entityHashToRequestId :=
                               (api3_entityHashToRequestId d)(h := None)\<rparr>)
                  | OtherStatus \<Rightarrow> (0, d))))"

section \<open>Small instances of the parameters, for running the models\<close>

text \<open>
  A generator whose state is a counter, with outputs \<open>0, 1/8, ..., 7/8\<close>; a platform
  whose digest is the first four bytes of its padded input; a keccak that always throws;
  an entity hash of 64 hex digits, and one whose string hash is \<open>0\<close>; a status endpoint that reports every request completed
  with the random number \<open>0x2a\<close>.
\<close>

definition counter_generator :: "nat MersenneTwister" where
  "counter_generator =
     \<lparr>mt_init = (\<lambda>seed. nat \<bar>seed\<bar>), mt_random = (\<lambda>g. (real (g mod 8) / 8, g + 3))\<rparr>"

definition toy_platform :: WebPlatform where
  "toy_platform = \<lparr>encode = map ucast, digest_SHA256 = (\<lambda>bs. take 4 (bs @ [1, 2, 3, 4]))\<rparr>"

definition keccak_throws :: "js_string \<Rightarrow> 8 word list option" where
  "keccak_throws input = None"

definition example_hash :: js_string where
  "example_hash = js ''aaaaaaaaaaaaaaaaaaaaaaaaaaaaaaaaaaaaaaaaaaaaaaaaaaaaaaaaaaaaaaaa''"

definition zero_hash :: js_string where
  "zero_hash = js ''aaaaaaaaaaaaaaaaaaaaaaaaaaaaaaaaaaaaaaaaaaaaaaaaaaaaaa001319e9ce''"

definition completed_0x2a :: "js_string \<Rightarrow> QRNGResponse option" where
  "completed_0x2a requestId = Some \<lparr>r_status = Completed, r_randomNumber = Some (js ''0x2a'')\<rparr>"

section \<open>Properties of the ledger\<close>

lemma apply_tx_processed:
  "processedEntityHashes c h \<Longrightarrow> processedEntityHashes (apply_tx t c) h"
  by (cases t)
    (auto simp: requestRandomness_def fulfillRandomWords_def updateSubscriptionId_def
      updateKeyHash_def updateCallbackGasLimit_def updateRequestConfirmations_def
      keep_def Let_def split: option.splits list.splits)

lemma apply_txs_processed:
  "processedEntityHashes c h \<Longrightarrow> processedEntityHashes (apply_txs ts c) h"
  by (induction ts arbitrary: c) (simp_all add: apply_tx_processed)

lemma requestRandomness_marks:
  "requestRandomness s t vrf h sl c = Inr (rid, c') \<Longrightarrow> processedEntityHashes c' h"
  by (auto simp: requestRandomness_def split: if_splits option.splits)

lemma accepted_apply_tx:
  "processedEntityHashes c h \<Longrightarrow> accepted h (apply_tx t c) = accepted h c"
  by (cases t)
    (auto simp: accepted_def requestRandomness_def fulfillRandomWords_def
      updateSubscriptionId_def updateKeyHash_def updateCallbackGasLimit_def
      updateRequestConfirmations_def keep_def Let_def split: option.splits list.splits)

lemma accepted_apply_txs:
  "processedEntityHashes c h \<Longrightarrow> accepted h (apply_txs ts c) = accepted h c"
  by (induction ts arbitrary: c) (simp_all add: apply_tx_processed accepted_apply_tx)

text \<open>
  From the constructor on, the ledger accepts at most one submission for an entity hash,
  and none while the hash is not marked as processed.
\<close>

lemma accepted_invariant_step:
  assumes "\<forall>h. accepted h c \<le> 1 \<and> (\<not> processedEntityHashes c h \<longrightarrow> accepted h c = 0)"
  shows "\<forall>h. accepted h (apply_tx t c) \<le> 1
    \<and> (\<not> processedEntityHashes (apply_tx t c) h \<longrightarrow> accepted h (apply_tx t c) = 0)"
  using assms
  by (cases t)
    (auto simp: accepted_def requestRandomness_def fulfillRandomWords_def
      updateSubscriptionId_def updateKeyHash_def updateCallbackGasLimit_def
      updateRequestConfirmations_def keep_def Let_def split: option.splits list.splits)

lemma accepted_invariant:
  assumes "\<forall>h. accepted h c \<le> 1 \<and> (\<not> processedEntityHashes c h \<longrightarrow> accepted h c = 0)"
  shows "\<forall>h. accepted h (apply_txs ts c) \<le> 1
    \<and> (\<not> processedEntityHashes (apply_txs ts c) h \<longrightarrow> accepted h (apply_txs ts c) = 0)"
  using assms
proof (induction ts arbitrary: c)
  case Nil
  then show ?case by simp
next
  case (Cons t ts)
  from Cons.IH [OF accepted_invariant_step [OF Cons.prems]] show ?case by simp
qed

lemma accepted_at_most_once:
  "accepted h (apply_txs ts (constructor deployer subscriptionId keyHash)) \<le> 1"
proof -
  have "\<forall>h. accepted h (constructor deployer subscriptionId keyHash) \<le> 1
      \<and> (\<not> processedEntityHashes (constructor deployer subscriptionId keyHash) h
          \<longrightarrow> accepted h (constructor deployer subscriptionId keyHash) = 0)"
    by (simp add: accepted_def constructor_def)
  from accepted_invariant [OF this] show ?thesis by blast
qed

text \<open>
  C1. Once \<open>requestRandomness\<close> has succeeded for an entity hash \<open>h\<close>, then after any
  further transactions whatever, a submission of \<open>h\<close> reverts with
  \<open>EntityAlreadyProcessed h\<close>, for every sender, salt, block time and coordinator answer.
  The reverted call leaves the storage as it was, and no sequence of later transactions
  adds another accepted submission for \<open>h\<close>.
\<close>

theorem requestRandomness_one_shot:
  assumes first: "requestRandomness s t vrf h sl c = Inr (rid, c')"
  shows "requestRandomness s2 t2 vrf2 h sl2 (apply_txs txs c') = Inl (EntityAlreadyProcessed h)
    \<and> apply_tx (RequestRandomness s2 t2 vrf2 h sl2) (apply_txs txs c') = apply_txs txs c'
    \<and> accepted h (apply_txs txs c') = accepted h c'"
proof -
  have marked: "processedEntityHashes c' h"
    using first by (rule requestRandomness_marks)
  then have "processedEntityHashes (apply_txs txs c') h"
    by (rule apply_txs_processed)
  then have rejected:
    "requestRandomness s2 t2 vrf2 h sl2 (apply_txs txs c') = Inl (EntityAlreadyProcessed h)"
    by (simp add: requestRandomness_def)
  then have "apply_tx (RequestRandomness s2 t2 vrf2 h sl2) (apply_txs txs c') = apply_txs txs c'"
    by simp
  moreover have "accepted h (apply_txs txs c') = accepted h c'"
    using marked by (rule accepted_apply_txs)
  ultimately show ?thesis using rejected by simp
qed

theorem requestRandomness_one_shot_witness:
  "requestRandomness 6 2000 (Some 2) 0xAA 0xCC
     (apply_txs [FulfillRandomWords 1500 1 [0x111]]
        (apply_tx (RequestRandomness 5 1000 (Some 1) 0xAA 0xBB) (constructor 1 7 9)))
   = Inl (EntityAlreadyProcessed 0xAA)"
proof -
  have first: "requestRandomness 5 1000 (Some 1) 0xAA 0xBB (constructor 1 7 9)
      = Inr (1, apply_tx (RequestRandomness 5 1000 (Some 1) 0xAA 0xBB) (constructor 1 7 9))"
    by (simp add: requestRandomness_def constructor_def)
  from requestRandomness_one_shot [OF first] show ?thesis by blast
qed

text \<open>
  C2. The contract does not keep the first fulfilment. A request is accepted with id 1 and
  fulfilled with \<open>0x111\<close>; a second delivery for the same id with \<open>0x222\<close> is accepted
  too, and the stored randomness is then \<open>0x222\<close>: \<open>fulfillRandomWords\<close> checks that the
  request exists, never that it is still unfulfilled.
\<close>

theorem fulfillRandomWords_overwrites:
  "randomness (getRequest 1
     (apply_txs [RequestRandomness 5 1000 (Some 1) 0xAA 0xBB,
                 FulfillRandomWords 1001 1 [0x111]] (constructor 1 7 9))) = 0x111
   \<and> randomness (getRequest 1
     (apply_txs [RequestRandomness 5 1000 (Some 1) 0xAA 0xBB,
                 FulfillRandomWords 1001 1 [0x111],
                 FulfillRandomWords 1002 1 [0x222]] (constructor 1 7 9))) = 0x222"
  by (simp add: constructor_def requestRandomness_def fulfillRandomWords_def
      getRequest_def keep_def)
section \<open>Properties of the shuffle\<close>

lemma floor_draw:
  fixes r :: real
  assumes "0 \<le> r" "r < 1" "0 < i"
  shows "0 \<le> \<lfloor>r * (of_int i + 1)\<rfloor> \<and> \<lfloor>r * (of_int i + 1)\<rfloor> \<le> i"
proof -
  have "r * (of_int i + 1) < of_int (i + 1)" using assms by simp
  then have "\<lfloor>r * (of_int i + 1)\<rfloor> < i + 1" by (simp only: floor_less_iff)
  moreover have "0 \<le> r * (of_int i + 1)" using assms by simp
  ultimately show ?thesis by simp
qed

text \<open>One round of the loop, and its exit, as equations.\<close>

lemma shuffle_loop_step:
  assumes "0 < i" "mt_random P mt = (r, g)"
  shows "shuffle_loop P b i (mt, h) =
    shuffle_loop P b (i - 1)
      (g, h[b := (h ! b)[nat i := h ! b ! nat \<lfloor>r * (of_int i + 1)\<rfloor>,
                         nat \<lfloor>r * (of_int i + 1)\<rfloor> := h ! b ! nat i]])"
  using assms by (simp add: shuffle_loop.simps [of P b i] Let_def)

lemma shuffle_loop_stop: "\<not> 0 < i \<Longrightarrow> shuffle_loop P b i (mt, h) = (mt, h)"
  by (simp add: shuffle_loop.simps)

text \<open>The loop writes to the array at \<open>b\<close> and to nothing else.\<close>

lemma shuffle_loop_frame:
  "shuffle_loop P b i (mt, h) = (mt', h') \<Longrightarrow>
     length h' = length h \<and> (\<forall>a. a \<noteq> b \<longrightarrow> h' ! a = h ! a)"
proof (induction "nat i" arbitrary: i mt h)
  case 0
  then show ?case by (simp add: shuffle_loop_stop)
next
  case (Suc n)
  then have pos: "0 < i" by simp
  obtain r g where rg: "mt_random P mt = (r, g)" by (cases "mt_random P mt")
  define h1 where "h1 = h[b := (h ! b)[nat i := h ! b ! nat \<lfloor>r * (of_int i + 1)\<rfloor>,
                         nat \<lfloor>r * (of_int i + 1)\<rfloor> := h ! b ! nat i]]"
  have step: "shuffle_loop P b (i - 1) (g, h1) = (mt', h')"
    using Suc.prems shuffle_loop_step [OF pos rg, of b h] by (simp add: h1_def)
  have "n = nat (i - 1)" using Suc.hyps(2) by simp
  from Suc.hyps(1) [OF this step]
  show ?case by (simp add: h1_def)
qed

text \<open>Every round swaps two positions of the array, both inside it.\<close>

lemma shuffle_loop_mset:
  "unit_interval P \<Longrightarrow> b < length h \<Longrightarrow> i < int (length (h ! b)) \<Longrightarrow>
   shuffle_loop P b i (mt, h) = (mt', h') \<Longrightarrow> mset (h' ! b) = mset (h ! b)"
proof (induction "nat i" arbitrary: i mt h)
  case 0
  then show ?case by (simp add: shuffle_loop_stop)
next
  case (Suc n)
  then have pos: "0 < i" by simp
  obtain r g where rg: "mt_random P mt = (r, g)" by (cases "mt_random P mt")
  define a where "a = h ! b"
  define j where "j = \<lfloor>r * (of_int i + 1)\<rfloor>"
  define h1 where "h1 = h[b := a[nat i := a ! nat j, nat j := a ! nat i]]"
  have step: "shuffle_loop P b (i - 1) (g, h1) = (mt', h')"
    using Suc.prems(4) shuffle_loop_step [OF pos rg, of b h] by (simp add: h1_def a_def j_def)
  have "0 \<le> r \<and> r < 1"
    using Suc.prems(1) rg unfolding unit_interval_def by (metis fst_conv)
  then have jr: "0 \<le> j \<and> j \<le> i" unfolding j_def using floor_draw pos by blast
  have ilen: "nat i < length a" using Suc.prems(3) pos by (simp add: a_def)
  then have jlen: "nat j < length a" using jr by linarith
  have sw: "mset (a[nat i := a ! nat j, nat j := a ! nat i]) = mset a"
    using mset_swap [OF jlen ilen] .
  have h1b: "h1 ! b = a[nat i := a ! nat j, nat j := a ! nat i]"
    using Suc.prems(2) by (simp add: h1_def)
  have n: "n = nat (i - 1)" using Suc.hyps(2) by simp
  have "mset (h' ! b) = mset (h1 ! b)"
  proof (rule Suc.hyps(1) [OF n Suc.prems(1) _ _ step])
    show "b < length h1" using Suc.prems(2) by (simp add: h1_def)
    show "i - 1 < int (length (h1 ! b))" using h1b ilen by simp
  qed
  then show ?case using h1b sw by (simp add: a_def)
qed

text \<open>Two runs of the loop that start from the same array and the same generator state.\<close>

lemma shuffle_loop_content:
  "b < length h \<Longrightarrow> b' < length k \<Longrightarrow> h ! b = k ! b' \<Longrightarrow>
   shuffle_loop P b i (mt, h) = (g, h') \<Longrightarrow> shuffle_loop P b' i (mt, k) = (g', k') \<Longrightarrow>
     g = g' \<and> h' ! b = k' ! b'"
proof (induction "nat i" arbitrary: i mt h k)
  case 0
  then show ?case by (simp add: shuffle_loop_stop)
next
  case (Suc n)
  then have pos: "0 < i" by simp
  obtain r m where rg: "mt_random P mt = (r, m)" by (cases "mt_random P mt")
  define a where "a = h ! b"
  define j where "j = \<lfloor>r * (of_int i + 1)\<rfloor>"
  define a' where "a' = a[nat i := a ! nat j, nat j := a ! nat i]"
  have s1: "shuffle_loop P b (i - 1) (m, h[b := a']) = (g, h')"
    using Suc.prems(4) shuffle_loop_step [OF pos rg, of b h] by (simp add: a'_def a_def j_def)
  have s2: "shuffle_loop P b' (i - 1) (m, k[b' := a']) = (g', k')"
    using Suc.prems(5) shuffle_loop_step [OF pos rg, of b' k] Suc.prems(3)
    by (simp add: a'_def a_def j_def)
  have n: "n = nat (i - 1)" using Suc.hyps(2) by simp
  show ?case
  proof (rule Suc.hyps(1) [OF n _ _ _ s1 s2])
    show "b < length (h[b := a'])" using Suc.prems(1) by simp
    show "b' < length (k[b' := a'])" using Suc.prems(2) by simp
    show "h[b := a'] ! b = k[b' := a'] ! b'" using Suc.prems(1,2) by simp
  qed
qed

text \<open>What \<open>shuffleArray\<close> is, in terms of its loop.\<close>

lemma shuffleArray_unfold:
  assumes "shuffleArray P h array seed = (b, h')"
  shows "b = length h \<and> (\<exists>g. shuffle_loop P (length h) (int (length (h ! array)) - 1)
           (mt_init P seed, h @ [h ! array]) = (g, h'))"
  using assms unfolding shuffleArray_def Let_def by (auto split: prod.splits)

text \<open>The call allocates one array, returns it, and leaves all the others alone.\<close>

lemma shuffleArray_allocates:
  assumes "shuffleArray P h array seed = (b, h')"
  shows "b = length h \<and> length h' = length h + 1 \<and> (\<forall>a<length h. h' ! a = h ! a)"
proof -
  from shuffleArray_unfold [OF assms] obtain g where b: "b = length h"
    and loop: "shuffle_loop P (length h) (int (length (h ! array)) - 1)
      (mt_init P seed, h @ [h ! array]) = (g, h')"
    by blast
  from shuffle_loop_frame [OF loop] show ?thesis
    by (auto simp: b nth_append)
qed

lemma counter_generator_unit: "unit_interval counter_generator"
  unfolding unit_interval_def counter_generator_def by simp

lemma counter_generator_run:
  "shuffleArray counter_generator [[js ''A'', js ''B'', js ''C'', js ''D'']] 0 42
   = (1, [[js ''A'', js ''B'', js ''C'', js ''D''], [js ''C'', js ''A'', js ''D'', js ''B'']])"
  by (simp add: shuffleArray_def counter_generator_def shuffle_loop.simps js_def)

lemma counter_generator_rerun:
  "shuffleArray counter_generator
     [[js ''A'', js ''B'', js ''C'', js ''D''], [js ''C'', js ''A'', js ''D'', js ''B'']] 0 42
   = (2, [[js ''A'', js ''B'', js ''C'', js ''D''], [js ''C'', js ''A'', js ''D'', js ''B''],
          [js ''C'', js ''A'', js ''D'', js ''B'']])"
  by (simp add: shuffleArray_def counter_generator_def shuffle_loop.simps js_def)

text \<open>
  C3. For a generator whose outputs lie in \<open>[0, 1)\<close> and every seed, the array that
  \<open>shuffleArray\<close> returns has the length of its argument and the same elements with the
  same multiplicities: it is a permutation of the argument.
\<close>

theorem shuffleArray_permutation:
  assumes "unit_interval P" "array < length h" "shuffleArray P h array seed = (b, h')"
  shows "length (h' ! b) = length (h ! array) \<and> mset (h' ! b) = mset (h ! array)"
proof -
  from shuffleArray_unfold [OF assms(3)] obtain g where b: "b = length h"
    and loop: "shuffle_loop P (length h) (int (length (h ! array)) - 1)
      (mt_init P seed, h @ [h ! array]) = (g, h')"
    by blast
  have "mset (h' ! length h) = mset ((h @ [h ! array]) ! length h)"
    by (rule shuffle_loop_mset [OF assms(1) _ _ loop]) simp_all
  then have m: "mset (h' ! b) = mset (h ! array)" by (simp add: b)
  from mset_eq_length [OF m] m show ?thesis by simp
qed

theorem shuffleArray_permutation_witness:
  "length ([[js ''A'', js ''B'', js ''C'', js ''D''],
            [js ''C'', js ''A'', js ''D'', js ''B'']] ! 1) = 4
   \<and> mset [js ''C'', js ''A'', js ''D'', js ''B'']
     = mset [js ''A'', js ''B'', js ''C'', js ''D'']"
  using shuffleArray_permutation [OF counter_generator_unit _ counter_generator_run]
  by simp

text \<open>
  C10. \<open>shuffleArray\<close> works on a copy: the array it returns is a new one, and every array
  that was alive before the call, its argument among them, holds the same elements in the
  same order after the call.
\<close>

theorem shuffleArray_frame:
  assumes "shuffleArray P h array seed = (b, h')"
  shows "b = length h \<and> length h' = length h + 1 \<and> (\<forall>a<length h. h' ! a = h ! a)"
  using assms by (rule shuffleArray_allocates)

theorem shuffleArray_frame_witness:
  "[[js ''A'', js ''B'', js ''C'', js ''D''], [js ''C'', js ''A'', js ''D'', js ''B'']] ! 0
   = [js ''A'', js ''B'', js ''C'', js ''D'']
   \<and> (1::nat) = length [[js ''A'', js ''B'', js ''C'', js ''D'']]"
  using shuffleArray_frame [OF counter_generator_run] by simp

text \<open>
  C8. Both functions are deterministic. The entity hash of equal data and equal salt is
  the same string. A second call of \<open>shuffleArray\<close> on the same array with the same seed,
  run on the heap the first call has left, returns an array with the same elements in the
  same order as the first, and leaves the first result as it was.
\<close>

theorem hash_and_shuffle_deterministic:
  "(data1 = data2 \<and> salt1 = salt2 \<longrightarrow>
      computeEntityHash W data1 salt1 = computeEntityHash W data2 salt2)
   \<and> (array < length h \<and> shuffleArray P h array seed = (b1, h1)
        \<and> shuffleArray P h1 array seed = (b2, h2) \<longrightarrow>
      h2 ! b2 = h1 ! b1 \<and> h2 ! b1 = h1 ! b1)"
proof -
  have shuffle: "h2 ! b2 = h1 ! b1 \<and> h2 ! b1 = h1 ! b1"
    if valid: "array < length h" and run1: "shuffleArray P h array seed = (b1, h1)"
      and run2: "shuffleArray P h1 array seed = (b2, h2)"
  proof -
    from shuffleArray_unfold [OF run1] obtain g1 where b1: "b1 = length h"
      and loop1: "shuffle_loop P (length h) (int (length (h ! array)) - 1)
        (mt_init P seed, h @ [h ! array]) = (g1, h1)"
      by blast
    from shuffleArray_unfold [OF run2] obtain g2 where b2: "b2 = length h1"
      and loop2: "shuffle_loop P (length h1) (int (length (h1 ! array)) - 1)
        (mt_init P seed, h1 @ [h1 ! array]) = (g2, h2)"
      by blast
    from shuffleArray_allocates [OF run1] valid
    have len1: "length h1 = length h + 1" and same: "h1 ! array = h ! array" by simp_all
    from shuffleArray_allocates [OF run2] len1 b1
    have kept: "h2 ! b1 = h1 ! b1" by simp
    have "g1 = g2 \<and> h1 ! length h = h2 ! length h1"
    proof (rule shuffle_loop_content [OF _ _ _ loop1])
      show "shuffle_loop P (length h1) (int (length (h ! array)) - 1)
          (mt_init P seed, h1 @ [h1 ! array]) = (g2, h2)"
        using loop2 same by simp
      show "(h @ [h ! array]) ! length h = (h1 @ [h1 ! array]) ! length h1"
        using same by simp
    qed simp_all
    then show ?thesis using kept b1 b2 by simp
  qed
  then show ?thesis by blast
qed

theorem hash_and_shuffle_deterministic_witness:
  "computeEntityHash toy_platform (js ''Alice'') (js ''s1'')
     = computeEntityHash toy_platform (js ''Alice'') (js ''s1'')
   \<and> [[js ''A'', js ''B'', js ''C'', js ''D''], [js ''C'', js ''A'', js ''D'', js ''B''],
       [js ''C'', js ''A'', js ''D'', js ''B'']] ! 2
     = [[js ''A'', js ''B'', js ''C'', js ''D''], [js ''C'', js ''A'', js ''D'', js ''B'']] ! 1"
proof -
  have valid: "(0::nat) < length [[js ''A'', js ''B'', js ''C'', js ''D'']]" by simp
  from hash_and_shuffle_deterministic
    [of "js ''Alice''" "js ''Alice''" "js ''s1''" "js ''s1''" toy_platform 0
      "[[js ''A'', js ''B'', js ''C'', js ''D'']]" counter_generator 42]
    valid counter_generator_run counter_generator_rerun
  show ?thesis by blast
qed

section \<open>Properties of the string functions\<close>

lemma slice_from_zero: "0 \<le> n \<Longrightarrow> slice 0 n xs = take (nat n) xs"
  by (simp add: slice_def Let_def min_def)

lemma hexDigit_lower: "0 \<le> d \<Longrightarrow> d < 16 \<Longrightarrow> isLowerHexDigit (hexDigit d)"
proof -
  assume "0 \<le> d" "d < 16"
  then have "d = 0 \<or> d = 1 \<or> d = 2 \<or> d = 3 \<or> d = 4 \<or> d = 5 \<or> d = 6 \<or> d = 7
      \<or> d = 8 \<or> d = 9 \<or> d = 10 \<or> d = 11 \<or> d = 12 \<or> d = 13 \<or> d = 14 \<or> d = 15"
    by arith
  then show ?thesis
    by (elim disjE) (simp_all add: hexDigit_def isLowerHexDigit_def)
qed

lemma toString16_hex: "0 \<le> n \<Longrightarrow> list_all isLowerHexDigit (toString16 n)"
proof (induction n rule: toString16.induct)
  case (1 n)
  show ?case
  proof (cases "n < 16")
    case True
    with "1.prems" show ?thesis
      by (simp add: toString16.simps [of n] hexDigit_lower)
  next
    case False
    have "list_all isLowerHexDigit (toString16 (n div 16))"
      using "1.IH"(2) "1.prems" False by simp
    moreover have "isLowerHexDigit (hexDigit (n mod 16))"
      by (rule hexDigit_lower) simp_all
    ultimately show ?thesis using False "1.prems"
      by (simp add: toString16.simps [of n])
  qed
qed

lemma toString16_nonempty: "toString16 n \<noteq> []"
  by (subst toString16.simps) auto

lemma round_double_nonneg:
  assumes "0 \<le> n"
  shows "0 \<le> round_double n"
proof -
  have "0 \<le> \<bar>n\<bar> div 2 ^ k" for k :: nat
    by (simp add: pos_imp_zdiv_nonneg_iff)
  then have "0 \<le> (if c then \<bar>n\<bar> div 2 ^ k + 1 else \<bar>n\<bar> div 2 ^ k) * 2 ^ k" for c and k :: nat
    by (simp add: add_nonneg_nonneg)
  moreover have "0 \<le> sgn n" using assms by (simp add: sgn_if)
  ultimately show ?thesis
    using assms unfolding round_double_def Let_def
    by (simp only: mult_nonneg_nonneg if_split)  simp
qed

lemma zero_lower: "isLowerHexDigit 0x30"
  by (simp add: isLowerHexDigit_def)

lemma simpleFallbackHash_format:
  "length (simpleFallbackHash input) = 66
   \<and> take 2 (simpleFallbackHash input) = js ''0x''
   \<and> list_all isLowerHexDigit (drop 2 (simpleFallbackHash input))"
proof -
  define combined where
    "combined = toString16 (round_double (\<bar>hash_loop 0 input\<bar> + \<bar>hash2_loop 0x811c9dc5 input\<bar>))"
  define body where "body = take 64 (padStart 64 0x30 combined)"
  have eq: "simpleFallbackHash input = js ''0x'' @ body"
    by (simp add: simpleFallbackHash_def Let_def combined_def body_def slice_from_zero)
  have hex: "list_all isLowerHexDigit combined"
    unfolding combined_def by (rule toString16_hex, rule round_double_nonneg) simp
  have len: "length body = 64"
    by (simp add: body_def padStart_def)
  have "list_all isLowerHexDigit (padStart 64 0x30 combined)"
    using hex by (auto simp: padStart_def list_all_iff zero_lower)
  then have all: "list_all isLowerHexDigit body"
    by (auto simp: body_def list_all_iff dest: in_set_takeD)
  have pre: "length (js ''0x'') = 2" by (simp add: js_def)
  show ?thesis using len all pre by (simp add: eq)
qed

text \<open>
  Two runs of the fallback hash. On the empty string both loops are skipped and the result
  is the FNV offset basis. On \<open>abc\<close> the second pass goes beyond \<open>2^53\<close>, and both the
  last product and the final sum are rounded.
\<close>

lemma simpleFallbackHash_empty:
  "simpleFallbackHash [] = js ''0x00000000000000000000000000000000000000000000000000000000811c9dc5''"
proof -
  have "bit_length 2166136261 = 32"
    by (simp add: bit_length.simps)
  then have "round_double 2166136261 = 2166136261"
    by (simp add: round_double_def Let_def)
  moreover have "toString16 2166136261 = js ''811c9dc5''"
    by (simp add: toString16.simps hexDigit_def js_def)
  ultimately show ?thesis
    by (simp add: simpleFallbackHash_def Let_def slice_def padStart_def js_def eval_nat_numeral)
qed

lemma simpleFallbackHash_abc:
  "simpleFallbackHash (js ''abc'') = js ''0x000000000000000000000000000000000000000000000000004d257f1a496170''"
proof -
  have h: "hash_loop 0 (js ''abc'') = 96354"
    by (simp add: js_def to_int32_def)
  have b1: "bit_length 35716716574267092 = 55" by (simp add: bit_length.simps)
  have b2: "bit_length 7868116798994998 = 53" by (simp add: bit_length.simps)
  have b3: "bit_length 21714801038715147 = 55" by (simp add: bit_length.simps)
  have h2: "hash2_loop 0x811c9dc5 (js ''abc'') = 21714801038715148"
    by (simp add: js_def round_double_def Let_def b1 b2 b3)
  have b4: "bit_length 21714801038811502 = 55" by (simp add: bit_length.simps)
  have r: "round_double 21714801038811502 = 21714801038811504"
    by (simp add: round_double_def Let_def b4)
  have t: "toString16 21714801038811504 = js ''4d257f1a496170''"
    by (simp add: toString16.simps hexDigit_def js_def)
  show ?thesis
    by (simp add: simpleFallbackHash_def Let_def h h2 r t slice_def padStart_def eval_nat_numeral)
      (simp add: js_def)
qed

lemma dropWhile_white_prefix:
  "list_all isWhiteSpace xs \<Longrightarrow> dropWhile isWhiteSpace (xs @ ys) = dropWhile isWhiteSpace ys"
  by (induction xs) simp_all

lemma dropWhile_all_white:
  "list_all isWhiteSpace xs \<Longrightarrow> dropWhile isWhiteSpace xs = []"
  unfolding list_all_iff using dropWhile_eq_Nil_conv [of isWhiteSpace xs] by blast

lemma trim_pad:
  assumes l: "list_all isWhiteSpace l" and r: "list_all isWhiteSpace r"
  shows "trim (l @ s @ r) = trim s"
proof -
  have dl: "dropWhile isWhiteSpace (l @ s @ r) = dropWhile isWhiteSpace (s @ r)"
    using l by (rule dropWhile_white_prefix)
  show ?thesis
  proof (cases "list_all isWhiteSpace s")
    case True
    then have "list_all isWhiteSpace (s @ r)" using r by simp
    then have a: "dropWhile isWhiteSpace (s @ r) = []" by (rule dropWhile_all_white)
    have b: "dropWhile isWhiteSpace s = []" using True by (rule dropWhile_all_white)
    show ?thesis unfolding trim_def dl a b by simp
  next
    case False
    then have ne: "\<not> (\<forall>x\<in>set s. isWhiteSpace x)" by (simp add: list_all_iff)
    have a: "dropWhile isWhiteSpace (s @ r) = dropWhile isWhiteSpace s @ r"
      using ne by (simp only: dropWhile_append if_False)
    have "list_all isWhiteSpace (rev r)" using r by simp
    then have b: "dropWhile isWhiteSpace (rev r @ rev (dropWhile isWhiteSpace s))
        = dropWhile isWhiteSpace (rev (dropWhile isWhiteSpace s))"
      by (rule dropWhile_white_prefix)
    show ?thesis unfolding trim_def dl a rev_append b by (rule refl)
  qed
qed

lemma trim_all_white:
  assumes "list_all isWhiteSpace s"
  shows "trim s = []"
proof -
  have b: "dropWhile isWhiteSpace s = []" using assms by (rule dropWhile_all_white)
  show ?thesis unfolding trim_def b by simp
qed

lemma trim_Nil: "trim [] = []"
  by (simp add: trim_def)


text \<open>
  C6. \<open>saltToBytes32\<close> answers the all-zero digest for \<open>undefined\<close>, \<open>null\<close>, the empty
  string and every string of white space only, whatever the keccak function is (it is not
  called), so the answer is never the hash of the empty string unless that hash is itself
  the all-zero digest. Every other salt is trimmed and then hashed, so white space around a
  salt does not change the result.
\<close>

theorem saltToBytes32_sentinel:
  "saltToBytes32 K Undefined = zeroBytes32
   \<and> saltToBytes32 K Null = zeroBytes32
   \<and> saltToBytes32 K (Str []) = zeroBytes32
   \<and> (list_all isWhiteSpace s \<longrightarrow> saltToBytes32 K (Str s) = zeroBytes32)
   \<and> (trim s \<noteq> [] \<longrightarrow> saltToBytes32 K (Str s) = stringToBytes32 K (trim s))
   \<and> (list_all isWhiteSpace l \<and> list_all isWhiteSpace r \<longrightarrow>
         saltToBytes32 K (Str (l @ s @ r)) = saltToBytes32 K (Str s))
   \<and> (stringToBytes32 K [] \<noteq> zeroBytes32 \<longrightarrow>
         saltToBytes32 K (Str []) \<noteq> stringToBytes32 K [])"
proof -
  have pad: "saltToBytes32 K (Str (l @ s @ r)) = saltToBytes32 K (Str s)"
    if "list_all isWhiteSpace l" "list_all isWhiteSpace r"
  proof -
    have t: "trim (l @ s @ r) = trim s" using that by (rule trim_pad)
    show ?thesis
    proof (cases "trim s = []")
      case True
      then show ?thesis using t by simp
    next
      case False
      then have "s \<noteq> []" by (auto simp: trim_Nil)
      then show ?thesis using t False by simp
    qed
  qed
  moreover have "saltToBytes32 K (Str s) = stringToBytes32 K (trim s)" if "trim s \<noteq> []"
  proof -
    from that have "s \<noteq> []" by (auto simp: trim_Nil)
    then show ?thesis using that by simp
  qed
  ultimately show ?thesis by (simp add: trim_all_white)
qed

theorem saltToBytes32_sentinel_witness:
  "saltToBytes32 keccak_throws (Str (js ''   '')) = zeroBytes32
   \<and> saltToBytes32 keccak_throws (Str (js '' '' @ js ''x'' @ js '' ''))
     = saltToBytes32 keccak_throws (Str (js ''x''))"
proof -
  have w1: "list_all isWhiteSpace (js ''   '')" by (simp add: js_def isWhiteSpace_def)
  have w2: "list_all isWhiteSpace (js '' '')" by (simp add: js_def isWhiteSpace_def)
  from saltToBytes32_sentinel [of keccak_throws "js ''   ''" "[]" "[]"]
    saltToBytes32_sentinel [of keccak_throws "js ''x''" "js '' ''" "js '' ''"] w1 w2
  show ?thesis by blast
qed

text \<open>
  C9. When the keccak primitive throws, \<open>stringToBytes32\<close> still returns: its result is that
  of \<open>simpleFallbackHash\<close>, a function of the input alone, and it is \<open>0x\<close> followed by
  exactly 64 lower-case hex digits.
\<close>

theorem stringToBytes32_fallback:
  assumes "keccak256 input = None"
  shows "stringToBytes32 keccak256 input = simpleFallbackHash input
    \<and> length (stringToBytes32 keccak256 input) = 66
    \<and> take 2 (stringToBytes32 keccak256 input) = js ''0x''
    \<and> list_all isLowerHexDigit (drop 2 (stringToBytes32 keccak256 input))"
proof -
  have "stringToBytes32 keccak256 input = simpleFallbackHash input"
    using assms by (simp add: stringToBytes32_def)
  then show ?thesis using simpleFallbackHash_format [of input] by simp
qed

theorem stringToBytes32_fallback_witness:
  "stringToBytes32 keccak_throws (js ''abc'')
     = js ''0x000000000000000000000000000000000000000000000000004d257f1a496170''
   \<and> length (stringToBytes32 keccak_throws (js ''abc'')) = 66"
proof -
  have "keccak_throws (js ''abc'') = None" by (simp add: keccak_throws_def)
  with stringToBytes32_fallback [of keccak_throws "js ''abc''"]
  have a: "stringToBytes32 keccak_throws (js ''abc'') = simpleFallbackHash (js ''abc'')"
    and b: "length (stringToBytes32 keccak_throws (js ''abc'')) = 66"
    by blast+
  from a simpleFallbackHash_abc b show ?thesis by (simp only: simp_thms)
qed

text \<open>
  C7. For a number of winners \<open>N \<ge> 0\<close>, \<open>autoPickWinners\<close> stores the first \<open>N\<close> entries of
  the shuffled list, in order; when \<open>N\<close> is at least the length of the list, it stores the
  whole list.
\<close>

theorem autoPickWinners_first_n:
  "(0 \<le> numberOfWinners v \<longrightarrow>
      winners (autoPickWinners v) = take (nat (numberOfWinners v)) (shuffledEntries v))
   \<and> (int (length (shuffledEntries v)) \<le> numberOfWinners v \<longrightarrow>
      winners (autoPickWinners v) = shuffledEntries v)"
  by (simp add: autoPickWinners_def slice_from_zero)

theorem autoPickWinners_first_n_witness:
  "winners (autoPickWinners \<lparr>shuffledEntries = [js ''C'', js ''A'', js ''D'', js ''B''],
       numberOfWinners = 2, winners = [], winnersSelected = False, winnersRevealed = False\<rparr>)
     = [js ''C'', js ''A'']
   \<and> winners (autoPickWinners \<lparr>shuffledEntries = [js ''C'', js ''A'', js ''B''],
       numberOfWinners = 10, winners = [], winnersSelected = False, winnersRevealed = False\<rparr>)
     = [js ''C'', js ''A'', js ''B'']"
  using autoPickWinners_first_n [of "\<lparr>shuffledEntries = [js ''C'', js ''A'', js ''D'', js ''B''],
       numberOfWinners = 2, winners = [], winnersSelected = False, winnersRevealed = False\<rparr>"]
    autoPickWinners_first_n [of "\<lparr>shuffledEntries = [js ''C'', js ''A'', js ''B''],
       numberOfWinners = 10, winners = [], winnersSelected = False, winnersRevealed = False\<rparr>"]
  by simp

section \<open>Properties of the drivers\<close>

lemma hash_loop_example_hash: "hash_loop 0 example_hash = 1926890496"
  by (simp add: example_hash_def js_def to_int32_def)

lemma hash_loop_zero_hash: "hash_loop 0 zero_hash = 0"
  by (simp add: zero_hash_def js_def to_int32_def)

text \<open>A stored result is returned as it is, and the driver does not change.\<close>

lemma MathRandomDriver_fetch_completed:
  "completedResults d h = Some v \<Longrightarrow> MathRandomDriver_fetchRandomness now r h d = (v, d)"
  by (simp add: MathRandomDriver_fetchRandomness_def)

lemma MathRandomDriver_fetch_pending:
  "completedResults d h = None \<Longrightarrow> pendingRequests d h = Some request \<Longrightarrow>
   now - requestedAt request < 2000 \<Longrightarrow> MathRandomDriver_fetchRandomness now r h d = (0, d)"
  by (simp add: MathRandomDriver_fetchRandomness_def)

lemma MathRandomDriver_request_pending:
  "completedResults d h = None \<Longrightarrow>
   completedResults (snd (MathRandomDriver_requestRandomness now rp h s d)) h = None
   \<and> (\<exists>t. pendingRequests (snd (MathRandomDriver_requestRandomness now rp h s d)) h
         = Some \<lparr>transactionId = t, saltBytes32 = s, requestedAt = now\<rparr>)"
  by (simp add: MathRandomDriver_requestRandomness_def Let_def)

lemma MathRandomDriver_fetch_unknown:
  "completedResults d h = None \<Longrightarrow> pendingRequests d h = None \<Longrightarrow>
   MathRandomDriver_fetchRandomness now r h d
     = (\<bar>hash_loop 0 h\<bar> + r,
        d\<lparr>completedResults := (completedResults d)(h \<mapsto> \<bar>hash_loop 0 h\<bar> + r)\<rparr>)"
  by (simp add: MathRandomDriver_fetchRandomness_def Let_def)

text \<open>
  The value made up for an unknown hash can be \<open>0\<close>: the string hash of \<open>zero_hash\<close> is
  \<open>0\<close>, and with a draw below \<open>0.000001\<close> the driver stores \<open>0\<close> and returns it.
\<close>

lemma MathRandomDriver_fetch_unknown_zero:
  "MathRandomDriver_fetchRandomness 5000 0 zero_hash new_MathRandomDriver
     = (0, new_MathRandomDriver\<lparr>completedResults := [zero_hash \<mapsto> 0]\<rparr>)"
  by (simp add: MathRandomDriver_fetchRandomness_def new_MathRandomDriver_def
      hash_loop_zero_hash Let_def)

text \<open>
  C4, as stated, fails on \<open>MathRandomDriver\<close>: on a new driver, where no request has been
  made for the entity hash, \<open>fetchRandomness\<close> with
  \<open>Math.floor(Math.random() * 1000000) = 500000\<close> returns \<open>1927390496\<close>, not \<open>0\<close>.
\<close>

theorem fetchRandomness_unknown_counterexample:
  "completedResults new_MathRandomDriver example_hash = None
   \<and> pendingRequests new_MathRandomDriver example_hash = None
   \<and> fst (MathRandomDriver_fetchRandomness 5000 500000 example_hash new_MathRandomDriver)
     = 1927390496"
  by (simp add: MathRandomDriver_fetchRandomness_def new_MathRandomDriver_def
      hash_loop_example_hash Let_def)

text \<open>
  C4, amended. While an entity hash has a pending request younger than 2000 ms and no
  stored result, \<open>fetchRandomness\<close> returns \<open>0\<close> and leaves the driver as it is; so it
  does for a hash that has just been submitted. For a hash with neither a pending request
  nor a stored result the driver makes a result up, the absolute value of the string hash
  plus \<open>Math.floor(Math.random() * 1000000)\<close>, stores it as completed and returns it;
  that value is \<open>0\<close> exactly when the string hash and the floored draw are both \<open>0\<close>.
\<close>

theorem fetchRandomness_pending_or_fabricated:
  "(completedResults d h = None \<and> pendingRequests d h = Some request
      \<and> now - requestedAt request < 2000 \<longrightarrow>
        MathRandomDriver_fetchRandomness now r h d = (0, d))
   \<and> (completedResults d h = None \<and> now - requested < 2000 \<longrightarrow>
        fst (MathRandomDriver_fetchRandomness now r h
          (snd (MathRandomDriver_requestRandomness requested randomPart h salt32 d))) = 0)
   \<and> (completedResults d h = None \<and> pendingRequests d h = None \<longrightarrow>
        MathRandomDriver_fetchRandomness now r h d
          = (\<bar>hash_loop 0 h\<bar> + r,
             d\<lparr>completedResults := (completedResults d)(h \<mapsto> \<bar>hash_loop 0 h\<bar> + r)\<rparr>))
   \<and> (completedResults d h = None \<and> pendingRequests d h = None \<and> 0 \<le> r \<longrightarrow>
        (fst (MathRandomDriver_fetchRandomness now r h d) = 0)
          = (hash_loop 0 h = 0 \<and> r = 0))"
proof -
  have just_submitted: "fst (MathRandomDriver_fetchRandomness now r h
      (snd (MathRandomDriver_requestRandomness requested randomPart h salt32 d))) = 0"
    if none: "completedResults d h = None" and young: "now - requested < 2000"
  proof -
    define d' where
      "d' = snd (MathRandomDriver_requestRandomness requested randomPart h salt32 d)"
    from MathRandomDriver_request_pending [OF none, of requested randomPart salt32]
    obtain t where c: "completedResults d' h = None"
      and p: "pendingRequests d' h
        = Some \<lparr>transactionId = t, saltBytes32 = salt32, requestedAt = requested\<rparr>"
      unfolding d'_def by blast
    have "MathRandomDriver_fetchRandomness now r h d' = (0, d')"
      by (rule MathRandomDriver_fetch_pending [OF c p]) (simp add: young)
    then show ?thesis by (simp add: d'_def)
  qed
  have zero: "(fst (MathRandomDriver_fetchRandomness now r h d) = 0)
      = (hash_loop 0 h = 0 \<and> r = 0)"
    if "completedResults d h = None" "pendingRequests d h = None" "0 \<le> r"
  proof -
    have "fst (MathRandomDriver_fetchRandomness now r h d) = \<bar>hash_loop 0 h\<bar> + r"
      using MathRandomDriver_fetch_unknown [OF that(1,2), of now r] by simp
    then show ?thesis using that(3) by auto
  qed
  show ?thesis
    using MathRandomDriver_fetch_pending just_submitted MathRandomDriver_fetch_unknown zero
    by blast
qed

theorem fetchRandomness_pending_or_fabricated_witness:
  "fst (MathRandomDriver_fetchRandomness 2500 500000 example_hash
     (snd (MathRandomDriver_requestRandomness 1000 (js ''k3j9x2q'') example_hash zeroBytes32
        new_MathRandomDriver))) = 0
   \<and> fst (MathRandomDriver_fetchRandomness 5000 500000 example_hash new_MathRandomDriver)
     = \<bar>hash_loop 0 example_hash\<bar> + 500000
   \<and> fst (MathRandomDriver_fetchRandomness 5000 0 zero_hash new_MathRandomDriver) = 0"
proof -
  have none: "completedResults new_MathRandomDriver example_hash = None"
    "pendingRequests new_MathRandomDriver example_hash = None"
    "completedResults new_MathRandomDriver zero_hash = None"
    "pendingRequests new_MathRandomDriver zero_hash = None"
    by (simp_all add: new_MathRandomDriver_def)
  have young: "(2500::int) - 1000 < 2000" by simp
  have nonneg: "(0::int) \<le> 0" by simp
  from fetchRandomness_pending_or_fabricated
      [of new_MathRandomDriver example_hash _ 2500 500000 1000 "js ''k3j9x2q''" zeroBytes32]
    fetchRandomness_pending_or_fabricated
      [of new_MathRandomDriver example_hash _ 5000 500000]
    fetchRandomness_pending_or_fabricated
      [of new_MathRandomDriver zero_hash _ 5000 0]
    none young nonneg hash_loop_zero_hash
  show ?thesis by simp
qed

text \<open>
  C5. The HTTP driver does not keep a fulfilled result. The entity hash has been requested
  (request id \<open>req-1\<close>) and the service reports the request completed with the number
  \<open>0x2a\<close>. The first \<open>fetchRandomness\<close> returns \<open>42\<close> and deletes the entry of the entity
  hash; the second finds no request and returns \<open>0\<close>.
\<close>

theorem API3_fetchRandomness_reverts_to_zero:
  "fst (API3QRNGDriver_fetchRandomness completed_0x2a example_hash
          (makeQRNGRequest 1000 (js ''req-1'') example_hash zeroBytes32 new_API3QRNGDriver))
     = 42
   \<and> fst (API3QRNGDriver_fetchRandomness completed_0x2a example_hash
          (snd (API3QRNGDriver_fetchRandomness completed_0x2a example_hash
            (makeQRNGRequest 1000 (js ''req-1'') example_hash zeroBytes32
               new_API3QRNGDriver))))
     = 0"
  by (simp add: API3QRNGDriver_fetchRandomness_def makeQRNGRequest_def
      new_API3QRNGDriver_def completed_0x2a_def parseRandomNumber_def parseInt16_def
      stripPrefix0x_def isHexDigit_def hexValue_def isWhiteSpace_def js_def Let_def)


end
